theory Spec2Isabelle
  imports Main "HOL-Library.Word"
begin

section \<open>The data of time_helpers.c\<close>

text \<open>
  \<^verbatim>\<open>time_helpers.c\<close> is a shim between a caller that holds epoch seconds and a
  fixed-layout record \<^verbatim>\<open>rust_time_tm\<close>, and the calendar routines of the host C
  library. The calendar arithmetic itself is not in the file: it is the host's. The
  embedding therefore has three layers:
  \<^item> the data and the functions of the file, translated line by line;
  \<^item> the host C library, a parameter \<open>H\<close> (a record of the primitives the file calls);
  \<^item> the build configuration, a parameter \<open>T\<close> (one value per combination of the
    preprocessor tests that select the macros \<^verbatim>\<open>GMTIME\<close>, \<^verbatim>\<open>LOCALTIME\<close>, \<^verbatim>\<open>TIMEGM\<close>
    and the source of \<^verbatim>\<open>utcoff\<close>).
\<close>

type_synonym int32_t = "32 word"
type_synonym int64_t = "64 word"

text \<open>
  \<^verbatim>\<open>int\<close> is 32 bits wide on every platform the file is written for. \<^verbatim>\<open>time_t\<close> and
  \<^verbatim>\<open>long\<close> differ in width between hosts: their values are integers, and the
  conversions of the source that can lose bits are written out where they happen.
\<close>

type_synonym c_int = "32 word"
type_synonym c_long = int
type_synonym time_t = int

text \<open>
  \<^verbatim>\<open>struct tm\<close> of \<^verbatim>\<open>time.h\<close>. The fields carry the prefix \<open>c_\<close> because
  \<^verbatim>\<open>rust_time_tm\<close> below uses the same names. \<^verbatim>\<open>tm_gmtoff\<close> and \<^verbatim>\<open>tm_zone\<close> exist on
  the BSD and GNU libraries only; nothing reads them on the other targets.
\<close>

record tm =
  c_tm_sec :: c_int
  c_tm_min :: c_int
  c_tm_hour :: c_int
  c_tm_mday :: c_int
  c_tm_mon :: c_int
  c_tm_year :: c_int
  c_tm_wday :: c_int
  c_tm_yday :: c_int
  c_tm_isdst :: c_int
  c_tm_gmtoff :: c_long
  c_tm_zone :: "string option"

text \<open>\<^verbatim>\<open>typedef struct { int32_t tm_sec; ... int32_t tm_nsec; } rust_time_tm;\<close>\<close>

record rust_time_tm =
  tm_sec :: int32_t
  tm_min :: int32_t
  tm_hour :: int32_t
  tm_mday :: int32_t
  tm_mon :: int32_t
  tm_year :: int32_t
  tm_wday :: int32_t
  tm_yday :: int32_t
  tm_isdst :: int32_t
  tm_utcoff :: int32_t
  tm_nsec :: int32_t

text \<open>
  The build configurations:
  \<^item> \<open>Win32_MSVC\<close>: \<^verbatim>\<open>_WIN32\<close> with \<^verbatim>\<open>_MSC_VER >= 1400\<close>;
  \<^item> \<open>Win32_Other\<close>: \<^verbatim>\<open>_WIN32\<close> with any other compiler;
  \<^item> \<open>Native_Client\<close>: \<^verbatim>\<open>__native_client__\<close>;
  \<^item> \<open>Android_Old\<close>: \<^verbatim>\<open>__ANDROID__\<close> with \<^verbatim>\<open>__ANDROID_API__ < 21\<close> and without
    \<^verbatim>\<open>TARGET_OS_GONK\<close>, where the file defines its own \<^verbatim>\<open>timegm\<close>;
  \<^item> \<open>Unix\<close>: every other target.
\<close>

datatype target = Win32_MSVC | Win32_Other | Native_Client | Android_Old | Unix

section \<open>The host C library\<close>

text \<open>
  The primitives of the host that the file calls. A call that fills a caller's buffer
  takes the buffer's content before the call and returns its content after it.
  \<^item> \<open>libc_gmtime_r\<close>, \<open>libc_localtime_r\<close>: the first component says whether the call
    returned \<^verbatim>\<open>NULL\<close>.
  \<^item> \<open>libc_gmtime\<close>, \<open>libc_localtime\<close>: \<open>None\<close> is \<^verbatim>\<open>NULL\<close>, \<open>Some t\<close> a pointer to the
    library's static buffer holding \<open>t\<close>.
  \<^item> \<open>libc_gmtime_s\<close>, \<open>libc_localtime_s\<close>: the first component is the \<^verbatim>\<open>errno_t\<close>
    returned, zero on success.
  \<^item> \<open>libc_mktime\<close> reads the time zone in force, given as the value of the
    environment variable \<^verbatim>\<open>TZ\<close> (\<open>None\<close> when it is unset).
  \<^item> \<open>libc_timezone\<close> is the global \<^verbatim>\<open>timezone\<close> (\<^verbatim>\<open>_timezone\<close>): seconds west of UTC
    of the zone's standard time.
  The encoders also normalise the \<^verbatim>\<open>struct tm\<close> they are given. The file passes them a
  local copy that it does not read again, so the model keeps the number returned only.
\<close>

record host =
  time_t_bits :: nat
  libc_gmtime_r :: "time_t \<Rightarrow> tm \<Rightarrow> bool \<times> tm"
  libc_localtime_r :: "time_t \<Rightarrow> tm \<Rightarrow> bool \<times> tm"
  libc_gmtime :: "time_t \<Rightarrow> tm option"
  libc_localtime :: "time_t \<Rightarrow> tm option"
  libc_gmtime_s :: "time_t \<Rightarrow> tm \<Rightarrow> int \<times> tm"
  libc_localtime_s :: "time_t \<Rightarrow> tm \<Rightarrow> int \<times> tm"
  libc_timegm :: "tm \<Rightarrow> time_t"
  libc_mktime :: "string option \<Rightarrow> tm \<Rightarrow> time_t"
  libc_mkgmtime64 :: "tm \<Rightarrow> time_t"
  libc_timezone :: c_long

text \<open>
  The state of the process that the fallback \<^verbatim>\<open>timegm\<close> reads and writes: the
  environment, the zone the library has loaded at its last \<^verbatim>\<open>tzset\<close>, and the
  allocator. \<open>heap\<close> lists the outcomes of the allocation requests to come (\<open>True\<close>: the
  request is served); once the list is used up every request is served.
\<close>

record proc =
  environ :: "string \<Rightarrow> string option"
  tz_loaded :: "string option"
  heap :: "bool list"

definition getenv :: "proc \<Rightarrow> string \<Rightarrow> string option" where
  "getenv p name = environ p name"

text \<open>\<^verbatim>\<open>strdup\<close> returns \<^verbatim>\<open>NULL\<close> (\<open>None\<close>) when the allocation fails.\<close>

definition strdup :: "proc \<Rightarrow> string \<Rightarrow> string option \<times> proc" where
  "strdup p s =
     (case heap p of
        [] \<Rightarrow> (Some s, p)
      | ok # rest \<Rightarrow> (if ok then Some s else None, p\<lparr>heap := rest\<rparr>))"

text \<open>
  \<^verbatim>\<open>setenv\<close> copies name and value into fresh memory: it returns -1 and leaves the
  environment as it was when the name is not valid or the allocation fails.
\<close>

definition setenv :: "proc \<Rightarrow> string \<Rightarrow> string \<Rightarrow> int \<Rightarrow> int \<times> proc" where
  "setenv p name val overwrite =
     (if name = [] \<or> CHR ''='' \<in> set name then (- 1, p)
      else if environ p name \<noteq> None \<and> overwrite = 0 then (0, p)
      else
        (case heap p of
           [] \<Rightarrow> (0, p\<lparr>environ := (environ p)(name := Some val)\<rparr>)
         | ok # rest \<Rightarrow>
             (if ok then (0, p\<lparr>environ := (environ p)(name := Some val), heap := rest\<rparr>)
              else (- 1, p\<lparr>heap := rest\<rparr>))))"

definition unsetenv :: "proc \<Rightarrow> string \<Rightarrow> int \<times> proc" where
  "unsetenv p name =
     (if name = [] \<or> CHR ''='' \<in> set name then (- 1, p)
      else (0, p\<lparr>environ := (environ p)(name := None)\<rparr>))"

definition tzset :: "proc \<Rightarrow> proc" where
  "tzset p = p\<lparr>tz_loaded := environ p ''TZ''\<rparr>"

text \<open>\<^verbatim>\<open>mktime\<close> uses the zone of the environment as if it had called \<^verbatim>\<open>tzset\<close>.\<close>

definition mktime :: "host \<Rightarrow> proc \<Rightarrow> tm \<Rightarrow> time_t \<times> proc" where
  "mktime H p t = (libc_mktime H (environ p ''TZ'') t, tzset p)"

section \<open>The functions of time_helpers.c\<close>

subsection \<open>The fallback \<^verbatim>\<open>timegm\<close> for Android API levels below 21\<close>

text \<open>
  \<^verbatim>\<open>
  static time_t timegm(struct tm *tm) {
      time_t ret; char *tz;
      tz = getenv("TZ");
      if (tz) tz = strdup(tz);
      setenv("TZ", "", 1);
      tzset();
      ret = mktime(tm);
      if (tz) { setenv("TZ", tz, 1); free(tz); } else unsetenv("TZ");
      tzset();
      return ret;
  }
  \<close>
  The results of \<^verbatim>\<open>setenv\<close> and \<^verbatim>\<open>unsetenv\<close> are not read. \<^verbatim>\<open>free\<close> leaves the
  state of the model as it is.
\<close>

definition timegm :: "host \<Rightarrow> proc \<Rightarrow> tm \<Rightarrow> time_t \<times> proc" where
  "timegm H p tm =
     (let tz = getenv p ''TZ'';
          (tz, p) = (case tz of None \<Rightarrow> (None, p) | Some s \<Rightarrow> strdup p s);
          p = snd (setenv p ''TZ'' [] 1);
          p = tzset p;
          (ret, p) = mktime H p tm;
          p = (case tz of
                 Some s \<Rightarrow> snd (setenv p ''TZ'' s 1)
               | None \<Rightarrow> snd (unsetenv p ''TZ''));
          p = tzset p
      in (ret, p))"

subsection \<open>Copying between the two records\<close>

text \<open>\<^verbatim>\<open>memset(out_tm, 0, sizeof(struct tm))\<close>: every field is zero, the pointer is null.\<close>

definition memset_tm :: tm where
  "memset_tm =
     \<lparr>c_tm_sec = 0, c_tm_min = 0, c_tm_hour = 0, c_tm_mday = 0, c_tm_mon = 0,
      c_tm_year = 0, c_tm_wday = 0, c_tm_yday = 0, c_tm_isdst = 0,
      c_tm_gmtoff = 0, c_tm_zone = None\<rparr>"

text \<open>
  \<^verbatim>\<open>rust_time_tm_to_tm(in_tm, out_tm)\<close> clears \<^verbatim>\<open>*out_tm\<close> first, so the result does not
  depend on what the buffer held: the model returns the buffer's new content.
  \<^verbatim>\<open>tm_utcoff\<close> and \<^verbatim>\<open>tm_nsec\<close> are not copied.
\<close>

definition rust_time_tm_to_tm :: "rust_time_tm \<Rightarrow> tm" where
  "rust_time_tm_to_tm in_tm =
     memset_tm
       \<lparr>c_tm_sec := tm_sec in_tm,
        c_tm_min := tm_min in_tm,
        c_tm_hour := tm_hour in_tm,
        c_tm_mday := tm_mday in_tm,
        c_tm_mon := tm_mon in_tm,
        c_tm_year := tm_year in_tm,
        c_tm_wday := tm_wday in_tm,
        c_tm_yday := tm_yday in_tm,
        c_tm_isdst := tm_isdst in_tm\<rparr>"

text \<open>
  \<^verbatim>\<open>tm_to_rust_tm(in_tm, out_tm, utcoff, nsec)\<close> assigns the eleven fields of
  \<^verbatim>\<open>*out_tm\<close> one by one; the model takes the content of \<^verbatim>\<open>*out_tm\<close> before the call and
  returns its content after it.
\<close>

definition tm_to_rust_tm :: "tm \<Rightarrow> rust_time_tm \<Rightarrow> int32_t \<Rightarrow> int32_t \<Rightarrow> rust_time_tm" where
  "tm_to_rust_tm in_tm out_tm utcoff nsec =
     out_tm
       \<lparr>tm_sec := c_tm_sec in_tm,
        tm_min := c_tm_min in_tm,
        tm_hour := c_tm_hour in_tm,
        tm_mday := c_tm_mday in_tm,
        tm_mon := c_tm_mon in_tm,
        tm_year := c_tm_year in_tm,
        tm_wday := c_tm_wday in_tm,
        tm_yday := c_tm_yday in_tm,
        tm_isdst := c_tm_isdst in_tm,
        tm_utcoff := utcoff,
        tm_nsec := nsec\<rparr>"

subsection \<open>The macros \<^verbatim>\<open>GMTIME\<close>, \<^verbatim>\<open>LOCALTIME\<close> and \<^verbatim>\<open>TIMEGM\<close>\<close>

text \<open>
  On \<open>Win32_Other\<close> the two decoders are functions of the file:
  \<^verbatim>\<open>
  static struct tm* GMTIME(const time_t *clock, struct tm *result) {
      struct tm* t = gmtime(clock);
      if (t == NULL || result == NULL) { return NULL; }
      *result = *t;
      return result;
  }
  \<close>
  \<open>result\<close> is \<open>None\<close> for a null pointer and \<open>Some b\<close> for a buffer holding \<open>b\<close>; the value
  returned is \<open>None\<close> for \<^verbatim>\<open>NULL\<close> and \<open>Some b'\<close> for \<^verbatim>\<open>result\<close>, the buffer now holding \<open>b'\<close>.
\<close>

definition GMTIME_static :: "host \<Rightarrow> time_t \<Rightarrow> tm option \<Rightarrow> tm option" where
  "GMTIME_static H clock result =
     (case libc_gmtime H clock of
        None \<Rightarrow> None
      | Some t \<Rightarrow> (case result of None \<Rightarrow> None | Some b \<Rightarrow> Some t))"

definition LOCALTIME_static :: "host \<Rightarrow> time_t \<Rightarrow> tm option \<Rightarrow> tm option" where
  "LOCALTIME_static H clock result =
     (case libc_localtime H clock of
        None \<Rightarrow> None
      | Some t \<Rightarrow> (case result of None \<Rightarrow> None | Some b \<Rightarrow> Some t))"

text \<open>
  \<open>GMTIME T H clock result\<close> and \<open>LOCALTIME T H clock result\<close> are the macro calls
  \<^verbatim>\<open>GMTIME(&s, &tm)\<close> and \<^verbatim>\<open>LOCALTIME(&s, &tm)\<close> with \<open>result\<close> the content of \<^verbatim>\<open>tm\<close> before
  the call. The first component of the value says whether the expression compares
  equal to \<^verbatim>\<open>NULL\<close>, the second is the content of \<^verbatim>\<open>tm\<close> after the call.
  On \<open>Win32_MSVC\<close> the expression is \<^verbatim>\<open>gmtime_s(&tm, &s)\<close>, an \<^verbatim>\<open>errno_t\<close>: it compares
  equal to \<^verbatim>\<open>NULL\<close> when it is zero.
\<close>

definition GMTIME :: "target \<Rightarrow> host \<Rightarrow> time_t \<Rightarrow> tm \<Rightarrow> bool \<times> tm" where
  "GMTIME T H clock result =
     (case T of
        Win32_MSVC \<Rightarrow> (let (e, b) = libc_gmtime_s H clock result in (e = 0, b))
      | Win32_Other \<Rightarrow>
          (case GMTIME_static H clock (Some result) of
             None \<Rightarrow> (True, result)
           | Some b \<Rightarrow> (False, b))
      | Native_Client \<Rightarrow> libc_gmtime_r H clock result
      | Android_Old \<Rightarrow> libc_gmtime_r H clock result
      | Unix \<Rightarrow> libc_gmtime_r H clock result)"

definition LOCALTIME :: "target \<Rightarrow> host \<Rightarrow> time_t \<Rightarrow> tm \<Rightarrow> bool \<times> tm" where
  "LOCALTIME T H clock result =
     (case T of
        Win32_MSVC \<Rightarrow> (let (e, b) = libc_localtime_s H clock result in (e = 0, b))
      | Win32_Other \<Rightarrow>
          (case LOCALTIME_static H clock (Some result) of
             None \<Rightarrow> (True, result)
           | Some b \<Rightarrow> (False, b))
      | Native_Client \<Rightarrow> libc_localtime_r H clock result
      | Android_Old \<Rightarrow> libc_localtime_r H clock result
      | Unix \<Rightarrow> libc_localtime_r H clock result)"

text \<open>
  \<^verbatim>\<open>TIMEGM(&t)\<close>: \<^verbatim>\<open>_mkgmtime64(&t)\<close> on \<open>Win32_MSVC\<close>, \<^verbatim>\<open>mktime((&t)) - _timezone\<close> on
  \<open>Win32_Other\<close> and \<open>Native_Client\<close>, \<^verbatim>\<open>timegm(&t)\<close> elsewhere, which on \<open>Android_Old\<close> is
  the function of the file.
\<close>

definition TIMEGM :: "target \<Rightarrow> host \<Rightarrow> proc \<Rightarrow> tm \<Rightarrow> time_t \<times> proc" where
  "TIMEGM T H p result =
     (case T of
        Win32_MSVC \<Rightarrow> (libc_mkgmtime64 H result, p)
      | Win32_Other \<Rightarrow> (let (r, p) = mktime H p result in (r - libc_timezone H, p))
      | Native_Client \<Rightarrow> (let (r, p) = mktime H p result in (r - libc_timezone H, p))
      | Android_Old \<Rightarrow> timegm H p result
      | Unix \<Rightarrow> (libc_timegm H result, p))"

subsection \<open>The exported functions\<close>

text \<open>
  \<^verbatim>\<open>time_t s = sec;\<close> converts a 64-bit value to the host's \<^verbatim>\<open>time_t\<close>. Where \<^verbatim>\<open>time_t\<close> is
  narrower the compilers of every target keep the low bits, read as two's complement.
\<close>

definition to_time_t :: "host \<Rightarrow> int64_t \<Rightarrow> time_t" where
  "to_time_t H sec = signed_take_bit (time_t_bits H - 1) (sint sec)"

text \<open>
  \<^verbatim>\<open>
  void rust_time_gmtime(int64_t sec, int32_t nsec, rust_time_tm *timeptr) {
      struct tm tm;
      time_t s = sec;
      GMTIME(&s, &tm);
      tm_to_rust_tm(&tm, timeptr, 0, nsec);
  }
  \<close>
  The local \<^verbatim>\<open>tm\<close> is not initialised: the parameter \<open>tm\<close> is whatever the stack holds.
  \<open>timeptr\<close> is the content of \<^verbatim>\<open>*timeptr\<close> before the call, the value its content after.
\<close>

definition rust_time_gmtime ::
  "target \<Rightarrow> host \<Rightarrow> int64_t \<Rightarrow> int32_t \<Rightarrow> tm \<Rightarrow> rust_time_tm \<Rightarrow> rust_time_tm" where
  "rust_time_gmtime T H sec nsec tm timeptr =
     (let s = to_time_t H sec;
          (null, tm) = GMTIME T H s tm
      in tm_to_rust_tm tm timeptr 0 nsec)"

text \<open>
  The offset reported by \<^verbatim>\<open>rust_time_localtime\<close>:
  \<^verbatim>\<open>
  #if defined(_WIN32)
      int32_t utcoff = -timezone;
  #elif defined(__native_client__)
      int32_t utcoff = _timezone;
  #else
      int32_t utcoff = tm.tm_gmtoff;
  #endif
  \<close>
  The initialiser is a \<^verbatim>\<open>long\<close>; the conversion to \<^verbatim>\<open>int32_t\<close> keeps the low 32 bits.
\<close>

definition utcoff :: "target \<Rightarrow> host \<Rightarrow> tm \<Rightarrow> int32_t" where
  "utcoff T H tm =
     (case T of
        Win32_MSVC \<Rightarrow> word_of_int (- libc_timezone H)
      | Win32_Other \<Rightarrow> word_of_int (- libc_timezone H)
      | Native_Client \<Rightarrow> word_of_int (libc_timezone H)
      | Android_Old \<Rightarrow> word_of_int (c_tm_gmtoff tm)
      | Unix \<Rightarrow> word_of_int (c_tm_gmtoff tm))"

text \<open>
  \<^verbatim>\<open>
  int32_t rust_time_localtime(int64_t sec, int32_t nsec, rust_time_tm *timeptr) {
      struct tm tm;
      time_t s = sec;
      if (LOCALTIME(&s, &tm) == NULL) { return 0; }
      ... utcoff ...
      tm_to_rust_tm(&tm, timeptr, utcoff, nsec);
      return 1;
  }
  \<close>
  The value is the pair of the number returned and the content of \<^verbatim>\<open>*timeptr\<close> after
  the call.
\<close>

definition rust_time_localtime ::
  "target \<Rightarrow> host \<Rightarrow> int64_t \<Rightarrow> int32_t \<Rightarrow> tm \<Rightarrow> rust_time_tm \<Rightarrow> int32_t \<times> rust_time_tm" where
  "rust_time_localtime T H sec nsec tm timeptr =
     (let s = to_time_t H sec;
          (null, tm) = LOCALTIME T H s tm
      in if null then (0, timeptr)
         else (1, tm_to_rust_tm tm timeptr (utcoff T H tm) nsec))"

text \<open>
  \<^verbatim>\<open>
  int64_t rust_time_timegm(rust_time_tm* timeptr) {
      struct tm t;
      rust_time_tm_to_tm(timeptr, &t);
      return TIMEGM(&t);
  }
  \<close>
  The \<^verbatim>\<open>time_t\<close> computed is converted to \<^verbatim>\<open>int64_t\<close>. The process state is threaded
  through because \<^verbatim>\<open>TIMEGM\<close> reads the environment on some targets and writes it on one.
\<close>

definition rust_time_timegm :: "target \<Rightarrow> host \<Rightarrow> proc \<Rightarrow> rust_time_tm \<Rightarrow> int64_t \<times> proc" where
  "rust_time_timegm T H p timeptr =
     (let t = rust_time_tm_to_tm timeptr;
          (r, p) = TIMEGM T H p t
      in (word_of_int r, p))"

definition rust_time_mktime :: "host \<Rightarrow> proc \<Rightarrow> rust_time_tm \<Rightarrow> int64_t \<times> proc" where
  "rust_time_mktime H p timeptr =
     (let t = rust_time_tm_to_tm timeptr;
          (r, p) = mktime H p t
      in (word_of_int r, p))"

section \<open>A reference host\<close>

text \<open>
  A host on which the functions above can be run on concrete inputs: the proleptic
  Gregorian calendar in one time zone with a fixed standard offset and an optional
  summer time of one hour. It is not part of the file under verification; it stands
  for a C library that behaves as ISO C and POSIX describe. When a decoder refuses an
  instant the reference host leaves the caller's buffer as it found it; a library may
  also have written some of the fields by then.
\<close>

text \<open>
  Days between 1970-01-01 and the civil date \<open>y\<close>-\<open>m\<close>-\<open>d\<close> (\<open>m\<close> from 1 to 12). Years are
  counted from March, in eras of 400 years.
\<close>

definition days_from_civil :: "int \<Rightarrow> int \<Rightarrow> int \<Rightarrow> int" where
  "days_from_civil y m d =
     (let y' = (if m \<le> 2 then y - 1 else y);
          era = y' div 400;
          yoe = y' - era * 400;
          doy = (153 * (if 2 < m then m - 3 else m + 9) + 2) div 5 + d - 1;
          doe = yoe * 365 + yoe div 4 - yoe div 100 + doy
      in era * 146097 + doe - 719468)"

text \<open>
  The civil date of the day \<open>z\<close> days after 1970-01-01. An era of 146097 days holds four
  centuries, the last one a day longer; a century of 36524 days holds 25 cycles of four
  years, the last one a day shorter; a cycle of 1461 days holds four years, the last one
  a day longer. The year runs from March, so that the day added is its last.
\<close>

definition civil_from_days :: "int \<Rightarrow> int \<times> int \<times> int" where
  "civil_from_days z =
     (let z' = z + 719468;
          era = z' div 146097;
          doe = z' - era * 146097;
          c = min 3 (doe div 36524);
          doc = doe - c * 36524;
          q = doc div 1461;
          doq = doc - q * 1461;
          a = min 3 (doq div 365);
          doy = doq - a * 365;
          yoe = c * 100 + q * 4 + a;
          mp = (5 * doy + 2) div 153;
          d = doy - (153 * mp + 2) div 5 + 1;
          m = (if mp < 10 then mp + 3 else mp - 9);
          y = yoe + era * 400
      in (if m \<le> 2 then y + 1 else y, m, d))"

text \<open>
  The broken-down time of \<open>s\<close> seconds after the epoch, with the given \<^verbatim>\<open>tm_isdst\<close>,
  \<^verbatim>\<open>tm_gmtoff\<close> and \<^verbatim>\<open>tm_zone\<close>; \<open>None\<close> when the year does not fit an \<^verbatim>\<open>int\<close>.
\<close>

definition ref_breakdown :: "int \<Rightarrow> int \<Rightarrow> int \<Rightarrow> string \<Rightarrow> tm option" where
  "ref_breakdown s isdst off zone =
     (let days = s div 86400;
          secs = s mod 86400;
          (y, m, d) = civil_from_days days
      in if y - 1900 < - 2147483648 \<or> 2147483647 < y - 1900 then None
         else Some
           \<lparr>c_tm_sec = word_of_int (secs mod 60),
            c_tm_min = word_of_int (secs div 60 mod 60),
            c_tm_hour = word_of_int (secs div 3600),
            c_tm_mday = word_of_int d,
            c_tm_mon = word_of_int (m - 1),
            c_tm_year = word_of_int (y - 1900),
            c_tm_wday = word_of_int ((days + 4) mod 7),
            c_tm_yday = word_of_int (days - days_from_civil y 1 1),
            c_tm_isdst = word_of_int isdst,
            c_tm_gmtoff = off,
            c_tm_zone = Some zone\<rparr>)"

text \<open>
  The seconds after the epoch of a broken-down time read as UTC. Only the six fields
  from \<^verbatim>\<open>tm_sec\<close> to \<^verbatim>\<open>tm_year\<close> are read; a month outside 0..11 carries into the year.
\<close>

definition ref_seconds :: "tm \<Rightarrow> int" where
  "ref_seconds t =
     (let mon = sint (c_tm_mon t);
          y = sint (c_tm_year t) + 1900 + mon div 12;
          m = mon mod 12 + 1
      in (days_from_civil y m 1 + (sint (c_tm_mday t) - 1)) * 86400
         + sint (c_tm_hour t) * 3600 + sint (c_tm_min t) * 60 + sint (c_tm_sec t))"

text \<open>
  Local time in a zone \<open>west\<close> seconds west of UTC in which summer time (one hour) is in
  force at the instants that satisfy \<open>dst\<close>.
\<close>

definition ref_local :: "int \<Rightarrow> (time_t \<Rightarrow> bool) \<Rightarrow> time_t \<Rightarrow> tm option" where
  "ref_local west dst clock =
     (if dst clock then ref_breakdown (clock - west + 3600) 1 (3600 - west) ''DST''
      else ref_breakdown (clock - west) 0 (- west) ''STD'')"

text \<open>
  \<^verbatim>\<open>mktime\<close> in that zone: a positive \<^verbatim>\<open>tm_isdst\<close> says the fields are summer time, zero
  says they are standard time, a negative one leaves it to the zone's rule. An empty
  \<^verbatim>\<open>TZ\<close> selects UTC, which has no summer time: there a positive \<^verbatim>\<open>tm_isdst\<close> cannot be
  met and the call fails with -1.
\<close>

definition ref_mktime :: "int \<Rightarrow> (time_t \<Rightarrow> bool) \<Rightarrow> string option \<Rightarrow> tm \<Rightarrow> time_t" where
  "ref_mktime west dst tz t =
     (if tz = Some [] then (if 0 < sint (c_tm_isdst t) then - 1 else ref_seconds t)
      else
        (let std = ref_seconds t + west in
         if 0 < sint (c_tm_isdst t) then std - 3600
         else if sint (c_tm_isdst t) < 0 \<and> dst (std - 3600) then std - 3600
         else std))"

definition ref_host :: "nat \<Rightarrow> int \<Rightarrow> (time_t \<Rightarrow> bool) \<Rightarrow> host" where
  "ref_host bits west dst =
     \<lparr>time_t_bits = bits,
      libc_gmtime_r =
        (\<lambda>clock result.
           case ref_breakdown clock 0 0 ''GMT'' of
             None \<Rightarrow> (True, result)
           | Some t \<Rightarrow> (False, t)),
      libc_localtime_r =
        (\<lambda>clock result.
           case ref_local west dst clock of
             None \<Rightarrow> (True, result)
           | Some t \<Rightarrow> (False, t)),
      libc_gmtime = (\<lambda>clock. ref_breakdown clock 0 0 ''GMT''),
      libc_localtime = ref_local west dst,
      libc_gmtime_s =
        (\<lambda>clock result.
           case ref_breakdown clock 0 0 ''GMT'' of
             None \<Rightarrow> (22, result)
           | Some t \<Rightarrow> (0, t)),
      libc_localtime_s =
        (\<lambda>clock result.
           case ref_local west dst clock of
             None \<Rightarrow> (22, result)
           | Some t \<Rightarrow> (0, t)),
      libc_timegm = ref_seconds,
      libc_mktime = ref_mktime west dst,
      libc_mkgmtime64 = ref_seconds,
      libc_timezone = west\<rparr>"

text \<open>
  Three hosts: UTC with a 64-bit \<^verbatim>\<open>time_t\<close>, UTC with a 32-bit \<^verbatim>\<open>time_t\<close>, and central
  Europe (one hour east of UTC) with the summer time of 2001, from 2001-03-25 01:00 UTC
  to 2001-10-28 01:00 UTC.
\<close>

definition utc_host :: host where
  "utc_host = ref_host 64 0 (\<lambda>s. False)"

definition utc_host32 :: host where
  "utc_host32 = ref_host 32 0 (\<lambda>s. False)"

definition cet_host :: host where
  "cet_host = ref_host 64 (- 3600) (\<lambda>s. 985482000 \<le> s \<and> s < 1004230800)"

text \<open>A process whose environment is empty, and a record and a buffer of zeros.\<close>

definition proc0 :: proc where
  "proc0 = \<lparr>environ = (\<lambda>name. None), tz_loaded = None, heap = []\<rparr>"

definition rust_tm0 :: rust_time_tm where
  "rust_tm0 =
     \<lparr>tm_sec = 0, tm_min = 0, tm_hour = 0, tm_mday = 0, tm_mon = 0, tm_year = 0,
      tm_wday = 0, tm_yday = 0, tm_isdst = 0, tm_utcoff = 0, tm_nsec = 0\<rparr>"

text \<open>
  The record of 1970-01-01 00:00:00, a Thursday, and a process whose \<^verbatim>\<open>TZ\<close> is set while
  memory is short: \<open>outcomes\<close> are the results of its next allocation requests.
\<close>

definition epoch_tm :: rust_time_tm where
  "epoch_tm = rust_tm0\<lparr>tm_mday := 1, tm_year := 70, tm_wday := 4\<rparr>"

definition proc_low_memory :: "bool list \<Rightarrow> proc" where
  "proc_low_memory outcomes =
     \<lparr>environ = [''TZ'' \<mapsto> ''Europe/Berlin''],
      tz_loaded = Some ''Europe/Berlin'',
      heap = outcomes\<rparr>"

text \<open>
  What the reference host's \<^verbatim>\<open>gmtime_r\<close> writes for the epoch, and what the
  \<^verbatim>\<open>localtime\<close> family of the host in central Europe writes for the instant 1000000000
  (2001-09-09 01:46:40 UTC, a Sunday in summer).
\<close>

definition gmt_epoch :: tm where
  "gmt_epoch =
     \<lparr>c_tm_sec = 0, c_tm_min = 0, c_tm_hour = 0, c_tm_mday = 1, c_tm_mon = 0,
      c_tm_year = 70, c_tm_wday = 4, c_tm_yday = 0, c_tm_isdst = 0,
      c_tm_gmtoff = 0, c_tm_zone = Some ''GMT''\<rparr>"

definition cest_2001_09_09 :: tm where
  "cest_2001_09_09 =
     \<lparr>c_tm_sec = 40, c_tm_min = 46, c_tm_hour = 3, c_tm_mday = 9, c_tm_mon = 8,
      c_tm_year = 101, c_tm_wday = 0, c_tm_yday = 251, c_tm_isdst = 1,
      c_tm_gmtoff = 7200, c_tm_zone = Some ''DST''\<rparr>"

section \<open>What the file expects of its host\<close>

text \<open>
  The file leaves the calendar to the host, so what it computes is right only on a host
  whose primitives are. \<open>ref_seconds\<close> gives the fields of a \<^verbatim>\<open>struct tm\<close> their meaning in
  the Gregorian calendar; the conditions below say of each primitive what ISO C, POSIX
  and the Microsoft documentation say of it, for the values that the host's \<^verbatim>\<open>time_t\<close>
  can hold.
\<close>

definition fits_time_t :: "host \<Rightarrow> int \<Rightarrow> bool" where
  "fits_time_t H x = (signed_take_bit (time_t_bits H - 1) x = x)"

text \<open>\<open>b\<close> is a broken-down UTC time of the instant \<open>clock\<close>.\<close>

definition utc_fields :: "tm \<Rightarrow> time_t \<Rightarrow> bool" where
  "utc_fields b clock = (ref_seconds b = clock \<and> c_tm_isdst b = 0)"

text \<open>
  \<^item> A UTC decoder that reports success has written a broken-down UTC time of its
    argument.
  \<^item> \<^verbatim>\<open>timegm\<close> and \<^verbatim>\<open>_mkgmtime64\<close> read the fields as UTC.
  \<^item> \<^verbatim>\<open>mktime\<close> with a zero \<^verbatim>\<open>tm_isdst\<close> reads the fields as standard time of the zone in
    force: as UTC under an empty \<^verbatim>\<open>TZ\<close>, and \<^verbatim>\<open>timezone\<close> seconds west of UTC under the
    \<^verbatim>\<open>TZ\<close> of the process \<open>p\<close>.
\<close>

definition host_conforms :: "host \<Rightarrow> proc \<Rightarrow> bool" where
  "host_conforms H p =
     ((\<forall>clock buf b. libc_gmtime_r H clock buf = (False, b) \<longrightarrow> utc_fields b clock) \<and>
      (\<forall>clock b. libc_gmtime H clock = Some b \<longrightarrow> utc_fields b clock) \<and>
      (\<forall>clock buf b. libc_gmtime_s H clock buf = (0, b) \<longrightarrow> utc_fields b clock) \<and>
      (\<forall>t. fits_time_t H (ref_seconds t) \<longrightarrow> libc_timegm H t = ref_seconds t) \<and>
      (\<forall>t. fits_time_t H (ref_seconds t) \<longrightarrow> libc_mkgmtime64 H t = ref_seconds t) \<and>
      (\<forall>t. c_tm_isdst t = 0 \<longrightarrow> fits_time_t H (ref_seconds t) \<longrightarrow>
         libc_mktime H (Some []) t = ref_seconds t) \<and>
      (\<forall>t. c_tm_isdst t = 0 \<longrightarrow> fits_time_t H (ref_seconds t + libc_timezone H) \<longrightarrow>
         libc_mktime H (environ p ''TZ'') t = ref_seconds t + libc_timezone H))"

text \<open>
  The seconds \<open>sec\<close> are in the range that the host supports on the target \<open>T\<close>: they fit
  its \<^verbatim>\<open>time_t\<close>, its UTC decoder accepts them, and the encoding can be carried out: where
  \<^verbatim>\<open>TIMEGM\<close> goes through local time the intermediate value fits \<^verbatim>\<open>time_t\<close>, and where it
  goes through the environment no allocation is refused.
\<close>

definition in_host_range :: "target \<Rightarrow> host \<Rightarrow> proc \<Rightarrow> int64_t \<Rightarrow> tm \<Rightarrow> bool" where
  "in_host_range T H p sec tm =
     (fits_time_t H (sint sec) \<and>
      (case T of
         Win32_MSVC \<Rightarrow> fst (libc_gmtime_s H (sint sec) tm) = 0
       | Win32_Other \<Rightarrow>
           libc_gmtime H (sint sec) \<noteq> None \<and> fits_time_t H (sint sec + libc_timezone H)
       | Native_Client \<Rightarrow>
           \<not> fst (libc_gmtime_r H (sint sec) tm) \<and> fits_time_t H (sint sec + libc_timezone H)
       | Android_Old \<Rightarrow> \<not> fst (libc_gmtime_r H (sint sec) tm) \<and> False \<notin> set (heap p)
       | Unix \<Rightarrow> \<not> fst (libc_gmtime_r H (sint sec) tm)))"

section \<open>Facts about the conversions\<close>

lemma to_time_t_0: "to_time_t H 0 = 0"
  by (simp add: to_time_t_def)

text \<open>A 64-bit \<^verbatim>\<open>time_t\<close> holds every \<^verbatim>\<open>int64_t\<close>; a 32-bit one wraps.\<close>

lemma to_time_t_64: "time_t_bits H = 64 \<Longrightarrow> to_time_t H sec = sint sec"
  unfolding to_time_t_def
  by (simp add: signed_take_bit_int_eq_self_iff)
     (use sint_range_size [of sec] in \<open>simp add: word_size\<close>)

lemma to_time_t_32_wraps: "to_time_t (H\<lparr>time_t_bits := 32\<rparr>) 4294967296 = 0"
  by (simp add: to_time_t_def)

text \<open>
  Copying a \<^verbatim>\<open>struct tm\<close> out and back in keeps its nine calendar fields and clears
  \<^verbatim>\<open>tm_gmtoff\<close> and \<^verbatim>\<open>tm_zone\<close>, for which \<^verbatim>\<open>rust_time_tm\<close> has no room.
\<close>

lemma rust_time_tm_round:
  "rust_time_tm_to_tm (tm_to_rust_tm b timeptr u n) = b\<lparr>c_tm_gmtoff := 0, c_tm_zone := None\<rparr>"
  by (simp add: rust_time_tm_to_tm_def tm_to_rust_tm_def memset_tm_def)

lemma rust_time_tm_to_tm_utcoff:
  "rust_time_tm_to_tm (r\<lparr>tm_utcoff := u\<rparr>) = rust_time_tm_to_tm r"
  by (simp add: rust_time_tm_to_tm_def)

lemma rust_time_tm_to_tm_nsec:
  "rust_time_tm_to_tm (r\<lparr>tm_nsec := n\<rparr>) = rust_time_tm_to_tm r"
  by (simp add: rust_time_tm_to_tm_def)

text \<open>\<^verbatim>\<open>tm_to_rust_tm\<close> writes every field: nothing of the old content is left.\<close>

lemma tm_to_rust_tm_all_fields:
  "tm_to_rust_tm b timeptr u n =
     \<lparr>tm_sec = c_tm_sec b, tm_min = c_tm_min b, tm_hour = c_tm_hour b,
      tm_mday = c_tm_mday b, tm_mon = c_tm_mon b, tm_year = c_tm_year b,
      tm_wday = c_tm_wday b, tm_yday = c_tm_yday b, tm_isdst = c_tm_isdst b,
      tm_utcoff = u, tm_nsec = n\<rparr>"
  by (cases timeptr) (simp add: tm_to_rust_tm_def)

subsection \<open>The reference host at the end of the range\<close>

text \<open>
  The last second an \<^verbatim>\<open>int64_t\<close> can hold lies in a year that no \<^verbatim>\<open>int\<close> can hold: the
  reference host returns \<^verbatim>\<open>NULL\<close> and leaves the buffer as it found it.
\<close>

lemma ref_breakdown_max: "ref_breakdown 9223372036854775807 0 0 ''GMT'' = None"
  by code_simp

lemma to_time_t_max: "to_time_t utc_host 9223372036854775807 = 9223372036854775807"
  by code_simp

lemma GMTIME_max: "GMTIME Unix utc_host 9223372036854775807 tm = (True, tm)"
  by (simp add: GMTIME_def utc_host_def ref_host_def ref_breakdown_max)

subsection \<open>The fallback \<^verbatim>\<open>timegm\<close> when every allocation is served\<close>

lemma timegm_restores_environ:
  assumes "heap p = []"
  shows "environ (snd (timegm H p t)) = environ p"
proof (cases "environ p ''TZ''")
  case None
  then show ?thesis
    using assms
    by (auto simp add: timegm_def getenv_def setenv_def unsetenv_def tzset_def mktime_def
        Let_def fun_eq_iff)
next
  case (Some z)
  then show ?thesis
    using assms
    by (auto simp add: timegm_def getenv_def strdup_def setenv_def unsetenv_def tzset_def
        mktime_def Let_def fun_eq_iff)
qed

lemma timegm_under_utc:
  assumes "heap p = []"
  shows "fst (timegm H p t) = libc_mktime H (Some []) t"
  using assms
  by (cases "environ p ''TZ''")
     (auto simp add: timegm_def getenv_def strdup_def setenv_def unsetenv_def tzset_def
        mktime_def Let_def)

subsection \<open>Fields that the encoder does not see\<close>

text \<open>
  \<^verbatim>\<open>rust_time_timegm\<close> returns a bare \<^verbatim>\<open>int64_t\<close>. \<^verbatim>\<open>tm_utcoff\<close> and \<^verbatim>\<open>tm_nsec\<close> are dropped
  by \<^verbatim>\<open>rust_time_tm_to_tm\<close>, so the number returned does not depend on them. \<^verbatim>\<open>tm_isdst\<close>
  is handed to the host.
\<close>

lemma rust_time_timegm_nsec:
  "rust_time_timegm T H p (r\<lparr>tm_nsec := n\<rparr>) = rust_time_timegm T H p r"
  by (simp add: rust_time_timegm_def rust_time_tm_to_tm_nsec)

lemma rust_time_timegm_utcoff:
  "rust_time_timegm T H p (r\<lparr>tm_utcoff := u\<rparr>) = rust_time_timegm T H p r"
  by (simp add: rust_time_timegm_def rust_time_tm_to_tm_utcoff)

lemma rust_time_tm_to_tm_isdst:
  "c_tm_isdst (rust_time_tm_to_tm r) = tm_isdst r"
  by (simp add: rust_time_tm_to_tm_def)



subsection \<open>The offset on the targets that have \<^verbatim>\<open>tm_gmtoff\<close>\<close>

lemma rust_time_localtime_gmtoff:
  assumes "T = Unix \<or> T = Android_Old"
      and "LOCALTIME T H (to_time_t H sec) tm = (False, b)"
  shows "tm_utcoff (snd (rust_time_localtime T H sec nsec tm timeptr)) =
           word_of_int (c_tm_gmtoff b)"
  using assms by (auto simp add: rust_time_localtime_def tm_to_rust_tm_def utcoff_def)

subsection \<open>The comparison with \<^verbatim>\<open>NULL\<close> on \<open>Win32_MSVC\<close>\<close>

text \<open>
  There \<^verbatim>\<open>LOCALTIME\<close> is \<^verbatim>\<open>localtime_s\<close>, whose value is an error number: it compares
  equal to \<^verbatim>\<open>NULL\<close> when the call succeeded.
\<close>

lemma LOCALTIME_Win32_MSVC:
  "fst (LOCALTIME Win32_MSVC H clock tm) = (fst (libc_localtime_s H clock tm) = 0)"
  by (simp add: LOCALTIME_def split: prod.splits)

subsection \<open>The shim on the reference host\<close>

text \<open>
  On the reference host the epoch is decoded to the same record on every target, for
  every width of \<^verbatim>\<open>time_t\<close> and every zone, whatever the stack and the caller's record
  held.
\<close>

lemma ref_breakdown_epoch: "ref_breakdown 0 0 0 ''GMT'' = Some gmt_epoch"
  by code_simp

lemma rust_time_gmtime_epoch_ref_host:
  "rust_time_gmtime T (ref_host bits west dst) 0 0 tm timeptr = epoch_tm"
  by (cases T)
     (simp_all add: rust_time_gmtime_def to_time_t_0 GMTIME_def GMTIME_static_def ref_host_def
        ref_breakdown_epoch tm_to_rust_tm_all_fields gmt_epoch_def epoch_tm_def rust_tm0_def)

text \<open>
  With a 32-bit \<^verbatim>\<open>time_t\<close> the instant \<open>2 ^ 32\<close> (2106-02-07 06:28:16) is decoded as the
  epoch.
\<close>

lemma rust_time_gmtime_wraps_ref_host:
  "rust_time_gmtime Unix utc_host32 4294967296 0 tm timeptr = epoch_tm"
proof -
  have "to_time_t utc_host32 4294967296 = 0"
    by code_simp
  then have "rust_time_gmtime Unix utc_host32 4294967296 0 tm timeptr =
      rust_time_gmtime Unix utc_host32 0 0 tm timeptr"
    by (simp add: rust_time_gmtime_def to_time_t_0)
  also have "\<dots> = epoch_tm"
    unfolding utc_host32_def by (rule rust_time_gmtime_epoch_ref_host)
  finally show ?thesis .
qed

subsection \<open>The reference calendar: encoding inverts decoding\<close>

lemma sint_word_of_int_32:
  "- 2147483648 \<le> x \<Longrightarrow> x \<le> 2147483647 \<Longrightarrow> sint (word_of_int x :: 32 word) = x"
  by (simp add: sint_sbintrunc' signed_take_bit_int_eq_self)

text \<open>
  The date computed for a day is a date of the calendar (the month from 1 to 12, the
  day from 1 to 31), and counting the days up to it gives the day back.
\<close>

lemma civil_from_days_inverse:
  assumes "civil_from_days z = (y, m, d)"
  shows "days_from_civil y m d = z \<and> 1 \<le> m \<and> m \<le> 12 \<and> 1 \<le> d \<and> d \<le> 31"
proof -
  define z' where "z' = z + 719468"
  define era where "era = z' div 146097"
  define doe where "doe = z' - era * 146097"
  define c where "c = min 3 (doe div 36524)"
  define doc where "doc = doe - c * 36524"
  define q where "q = doc div 1461"
  define doq where "doq = doc - q * 1461"
  define a where "a = min 3 (doq div 365)"
  define doy where "doy = doq - a * 365"
  define yoe where "yoe = c * 100 + q * 4 + a"
  define mp where "mp = (5 * doy + 2) div 153"
  have doe: "0 \<le> doe" "doe < 146097"
    unfolding doe_def era_def by (simp_all add: minus_div_mult_eq_mod [symmetric])
  have c: "0 \<le> c" "c \<le> 3" using doe unfolding c_def by simp_all
  have doc0: "0 \<le> doc" using doe unfolding doc_def c_def by (simp add: min_def; arith?)
  have doc1: "doc \<le> 36524" using doe unfolding doc_def c_def by (simp add: min_def; arith?)
  have q0: "0 \<le> q" using doc0 unfolding q_def by simp
  have q1: "q \<le> 24" using doc1 unfolding q_def by arith
  have doq0: "0 \<le> doq"
    unfolding doq_def q_def by (simp add: minus_div_mult_eq_mod [symmetric])
  have doq1: "doq \<le> 1460"
    unfolding doq_def q_def by (simp add: minus_div_mult_eq_mod [symmetric]; arith?)
  have a: "0 \<le> a" "a \<le> 3" using doq0 unfolding a_def by simp_all
  have doy0: "0 \<le> doy" using doq0 unfolding doy_def a_def by (simp add: min_def; arith?)
  have doy1: "doy \<le> 365" using doq1 unfolding doy_def a_def by (simp add: min_def; arith?)
  have yoe: "0 \<le> yoe" "yoe < 400" using c q0 q1 a unfolding yoe_def by simp_all
  have y4: "yoe div 4 = c * 25 + q" using a unfolding yoe_def by arith
  have y100: "yoe div 100 = c" using a q0 q1 unfolding yoe_def by arith
  have mp0: "0 \<le> mp" using doy0 unfolding mp_def by simp
  have mp1: "mp \<le> 11" using doy1 unfolding mp_def by arith
  have eq: "y = (if m \<le> 2 then yoe + era * 400 + 1 else yoe + era * 400)"
    "m = (if mp < 10 then mp + 3 else mp - 9)"
    "d = doy - (153 * mp + 2) div 5 + 1"
    using assms
    unfolding civil_from_days_def Let_def z'_def [symmetric] era_def [symmetric] doe_def [symmetric]
      c_def [symmetric] doc_def [symmetric] q_def [symmetric] doq_def [symmetric] a_def [symmetric]
      doy_def [symmetric] yoe_def [symmetric] mp_def [symmetric]
    by auto
  have m: "1 \<le> m" "m \<le> 12" using mp0 mp1 eq(2) by (simp_all split: if_splits)
  have mpm: "(if 2 < m then m - 3 else m + 9) = mp" using mp0 mp1 eq(2) by (simp split: if_splits)
  have y': "(if m \<le> 2 then y - 1 else y) = yoe + era * 400"
    using eq(1) by (simp split: if_splits)
  have era': "(yoe + era * 400) div 400 = era" using yoe by simp
  have doe_eq: "yoe * 365 + yoe div 4 - yoe div 100 + doy = doe"
    unfolding y4 y100 unfolding yoe_def doy_def doq_def doc_def by simp
  have d0: "1 \<le> d" using doy0 doy1 unfolding eq(3) mp_def by arith
  have d1: "d \<le> 31" using doy0 doy1 unfolding eq(3) mp_def by arith
  have "days_from_civil y m d = z"
    unfolding days_from_civil_def Let_def mpm y' era'
    using doe_eq unfolding eq(3) doe_def z'_def by simp
  with m d0 d1 show ?thesis by simp
qed

lemma days_from_civil_day: "days_from_civil y m 1 + (d - 1) = days_from_civil y m d"
  by (simp add: days_from_civil_def Let_def)

lemma seconds_of_day:
  fixes r :: int
  shows "r div 3600 * 3600 + r div 60 mod 60 * 60 + r mod 60 = r"
proof -
  define a where "a = r div 60"
  have h: "r div 3600 = a div 60"
    unfolding a_def by (simp add: div_mult2_eq [symmetric])
  have "r div 3600 * 3600 + a mod 60 * 60 + r mod 60 =
      (a div 60 * 60 + a mod 60) * 60 + r mod 60"
    unfolding h by (simp only: distrib_right mult.assoc; simp?)
  also have "\<dots> = a * 60 + r mod 60" by (simp only: div_mult_mod_eq)
  also have "\<dots> = r" unfolding a_def by (simp only: div_mult_mod_eq)
  finally show ?thesis unfolding a_def .
qed

lemma hour_bounds:
  fixes r :: int
  assumes "0 \<le> r" "r < 86400"
  shows "0 \<le> r div 3600" "r div 3600 \<le> 23"
proof -
  show "0 \<le> r div 3600" using assms by (simp add: pos_imp_zdiv_nonneg_iff)
  have "r div 3600 < 24" using assms by (simp add: div_less_iff_less_mult)
  then show "r div 3600 \<le> 23" by simp
qed

text \<open>
  The fields that \<open>ref_breakdown\<close> writes, and the year that it accepts.
\<close>

lemma ref_breakdown_fields:
  assumes "ref_breakdown s isdst off zone = Some t"
      and civ: "civil_from_days (s div 86400) = (y, m, d)"
  shows "- 2147483648 \<le> y - 1900 \<and> y - 1900 \<le> 2147483647 \<and>
     c_tm_sec t = word_of_int (s mod 86400 mod 60) \<and>
     c_tm_min t = word_of_int (s mod 86400 div 60 mod 60) \<and>
     c_tm_hour t = word_of_int (s mod 86400 div 3600) \<and>
     c_tm_mday t = word_of_int d \<and>
     c_tm_mon t = word_of_int (m - 1) \<and>
     c_tm_year t = word_of_int (y - 1900) \<and>
     c_tm_isdst t = word_of_int isdst"
proof (cases "y - 1900 < - 2147483648 \<or> 2147483647 < y - 1900")
  case True
  with assms show ?thesis
    by (simp only: ref_breakdown_def Let_def prod.case if_True option.distinct)
next
  case False
  then have yr: "- 2147483648 \<le> y - 1900 \<and> y - 1900 \<le> 2147483647" by arith
  from assms False have "t =
      \<lparr>c_tm_sec = word_of_int (s mod 86400 mod 60),
       c_tm_min = word_of_int (s mod 86400 div 60 mod 60),
       c_tm_hour = word_of_int (s mod 86400 div 3600),
       c_tm_mday = word_of_int d,
       c_tm_mon = word_of_int (m - 1),
       c_tm_year = word_of_int (y - 1900),
       c_tm_wday = word_of_int ((s div 86400 + 4) mod 7),
       c_tm_yday = word_of_int (s div 86400 - days_from_civil y 1 1),
       c_tm_isdst = word_of_int isdst,
       c_tm_gmtoff = off,
       c_tm_zone = Some zone\<rparr>"
    by (simp only: ref_breakdown_def Let_def prod.case if_False option.inject)
  then show ?thesis using yr by (simp only: tm.select_convs simp_thms)
qed

lemma month_index:
  fixes m :: int
  assumes "1 \<le> m" "m \<le> 12"
  shows "(m - 1) div 12 = 0" "(m - 1) mod 12 + 1 = m"
  using assms by (simp_all add: div_pos_pos_trivial mod_pos_pos_trivial)

lemma sint_field:
  assumes "w = (word_of_int x :: 32 word)" "- 2147483648 \<le> x" "x \<le> 2147483647"
  shows "sint w = x"
  using assms by (simp only: sint_word_of_int_32)

lemma ref_seconds_eq:
  assumes "sint (c_tm_sec t) = a" "sint (c_tm_min t) = b" "sint (c_tm_hour t) = c"
    "sint (c_tm_mday t) = d" "sint (c_tm_mon t) = m - 1" "sint (c_tm_year t) = y - 1900"
    "1 \<le> m" "m \<le> 12"
  shows "ref_seconds t = (days_from_civil y m 1 + (d - 1)) * 86400 + (c * 3600 + b * 60 + a)"
  unfolding ref_seconds_def Let_def assms(1-6) month_index [OF assms(7,8)]
  by simp

text \<open>
  Whatever instant the reference decoder accepts, the reference encoder gives it back
  from the fields written: no instant is mapped to the fields of another.
\<close>

lemma ref_breakdown_seconds:
  assumes "ref_breakdown s isdst off zone = Some t"
  shows "ref_seconds t = s"
proof -
  obtain y m d where civ: "civil_from_days (s div 86400) = (y, m, d)"
    by (cases "civil_from_days (s div 86400)") auto
  from civil_from_days_inverse [OF civ]
  have days: "days_from_civil y m d = s div 86400" and m: "1 \<le> m" "m \<le> 12"
    and d: "1 \<le> d" "d \<le> 31"
    by simp_all
  note f = ref_breakdown_fields [OF assms civ]
  define r where "r = s mod 86400"
  have r: "0 \<le> r" "r < 86400" by (simp_all add: r_def)
  note hb = hour_bounds [OF r]
  have sec: "sint (c_tm_sec t) = r mod 60"
    by (rule sint_field [of _ "r mod 60"]) (use f in \<open>simp_all add: r_def\<close>)
  have mn: "sint (c_tm_min t) = r div 60 mod 60"
    by (rule sint_field [of _ "r div 60 mod 60"]) (use f in \<open>simp_all add: r_def\<close>)
  have hr: "sint (c_tm_hour t) = r div 3600"
    by (rule sint_field [of _ "r div 3600"]) (use f hb in \<open>simp_all add: r_def\<close>)
  have md: "sint (c_tm_mday t) = d"
    by (rule sint_field [of _ d]) (use f d in simp_all)
  have mo: "sint (c_tm_mon t) = m - 1"
    by (rule sint_field [of _ "m - 1"]) (use f m in simp_all)
  have ye: "sint (c_tm_year t) = y - 1900"
    by (rule sint_field [of _ "y - 1900"]) (use f in simp_all)
  have "ref_seconds t =
      (days_from_civil y m 1 + (d - 1)) * 86400 +
      (r div 3600 * 3600 + r div 60 mod 60 * 60 + r mod 60)"
    by (rule ref_seconds_eq [OF sec mn hr md mo ye m])
  also have "\<dots> = s div 86400 * 86400 + r"
    by (simp only: days_from_civil_day days seconds_of_day)
  also have "\<dots> = s" by (simp add: r_def)
  finally show "ref_seconds t = s" .
qed

lemma ref_breakdown_isdst:
  assumes "ref_breakdown s isdst off zone = Some t"
  shows "c_tm_isdst t = word_of_int isdst"
proof -
  obtain y m d where civ: "civil_from_days (s div 86400) = (y, m, d)"
    by (cases "civil_from_days (s div 86400)") auto
  from ref_breakdown_fields [OF assms civ] show ?thesis by simp
qed

subsection \<open>The round trip on a host that conforms\<close>

lemma utc_fields_cleared:
  "utc_fields (b\<lparr>c_tm_gmtoff := g, c_tm_zone := z\<rparr>) clock = utc_fields b clock"
  by (simp add: utc_fields_def ref_seconds_def)

lemma to_time_t_fits: "fits_time_t H (sint sec) \<Longrightarrow> to_time_t H sec = sint sec"
  by (simp add: fits_time_t_def to_time_t_def)

text \<open>
  When no allocation is refused the fallback \<^verbatim>\<open>timegm\<close> is \<^verbatim>\<open>mktime\<close> under an empty \<^verbatim>\<open>TZ\<close>.
\<close>

lemma timegm_served:
  assumes "False \<notin> set (heap p)"
  shows "fst (timegm H p t) = libc_mktime H (Some []) t"
proof (cases "environ p ''TZ''")
  case None
  with assms show ?thesis
    by (cases "heap p")
       (auto simp add: timegm_def getenv_def setenv_def unsetenv_def tzset_def mktime_def
          Let_def split: prod.splits list.splits)
next
  case (Some z)
  with assms show ?thesis
    by (cases "heap p")
       (auto simp add: timegm_def getenv_def strdup_def setenv_def unsetenv_def tzset_def
          mktime_def Let_def split: prod.splits list.splits)
qed

text \<open>What the decoder of each target leaves in the buffer when the host accepts.\<close>

lemma GMTIME_accepted:
  assumes "host_conforms H p" and "in_host_range T H p sec tm"
  shows "utc_fields (snd (GMTIME T H (sint sec) tm)) (sint sec)"
proof (cases T)
  case Win32_MSVC
  with assms show ?thesis
    by (cases "libc_gmtime_s H (sint sec) tm")
       (auto simp add: host_conforms_def in_host_range_def GMTIME_def)
next
  case Win32_Other
  with assms show ?thesis
    by (cases "libc_gmtime H (sint sec)")
       (auto simp add: host_conforms_def in_host_range_def GMTIME_def GMTIME_static_def)
next
  case Native_Client
  with assms show ?thesis
    by (cases "libc_gmtime_r H (sint sec) tm")
       (auto simp add: host_conforms_def in_host_range_def GMTIME_def)
next
  case Android_Old
  with assms show ?thesis
    by (cases "libc_gmtime_r H (sint sec) tm")
       (auto simp add: host_conforms_def in_host_range_def GMTIME_def)
next
  case Unix
  with assms show ?thesis
    by (cases "libc_gmtime_r H (sint sec) tm")
       (auto simp add: host_conforms_def in_host_range_def GMTIME_def)
qed

text \<open>
  Each variant of \<^verbatim>\<open>TIMEGM\<close> returns the instant of a broken-down UTC time: directly,
  through \<^verbatim>\<open>mktime((result)) - _timezone\<close>, or through the environment.
\<close>

lemma TIMEGM_utc_fields:
  assumes host: "host_conforms H p" and range: "in_host_range T H p sec tm"
      and b: "utc_fields b (sint sec)"
  shows "fst (TIMEGM T H p b) = sint sec"
proof -
  from b have rs: "ref_seconds b = sint sec" and dst: "c_tm_isdst b = 0"
    by (simp_all add: utc_fields_def)
  from range have fits: "fits_time_t H (ref_seconds b)"
    by (simp add: in_host_range_def rs)
  show ?thesis
  proof (cases T)
    case Win32_MSVC
    with host fits show ?thesis by (simp add: TIMEGM_def host_conforms_def rs)
  next
    case Win32_Other
    with range have "fits_time_t H (ref_seconds b + libc_timezone H)"
      by (simp add: in_host_range_def rs)
    with host dst have "libc_mktime H (environ p ''TZ'') b = ref_seconds b + libc_timezone H"
      by (simp add: host_conforms_def)
    with Win32_Other show ?thesis by (simp add: TIMEGM_def mktime_def rs)
  next
    case Native_Client
    with range have "fits_time_t H (ref_seconds b + libc_timezone H)"
      by (simp add: in_host_range_def rs)
    with host dst have "libc_mktime H (environ p ''TZ'') b = ref_seconds b + libc_timezone H"
      by (simp add: host_conforms_def)
    with Native_Client show ?thesis by (simp add: TIMEGM_def mktime_def rs)
  next
    case Android_Old
    with range have "False \<notin> set (heap p)" by (simp add: in_host_range_def)
    then have "fst (timegm H p b) = libc_mktime H (Some []) b" by (rule timegm_served)
    also from host dst fits have "\<dots> = ref_seconds b" by (simp add: host_conforms_def)
    finally show ?thesis using Android_Old by (simp add: TIMEGM_def rs)
  next
    case Unix
    with host fits show ?thesis by (simp add: TIMEGM_def host_conforms_def rs)
  qed
qed

text \<open>
  The round trip: the seconds are narrowed without loss, the decoder writes a
  broken-down UTC time, the two copies keep its calendar fields, and the encoder reads
  them back.
\<close>

lemma round_trip_on_conforming_host:
  assumes host: "host_conforms H p" and range: "in_host_range T H p sec tm"
  shows "fst (rust_time_timegm T H p (rust_time_gmtime T H sec nsec tm timeptr)) = sec"
proof -
  define b where "b = snd (GMTIME T H (sint sec) tm)"
  from range have "to_time_t H sec = sint sec"
    by (simp add: in_host_range_def to_time_t_fits)
  then have dec: "rust_time_gmtime T H sec nsec tm timeptr = tm_to_rust_tm b timeptr 0 nsec"
    by (simp add: rust_time_gmtime_def b_def split: prod.splits)
  have "utc_fields (b\<lparr>c_tm_gmtoff := 0, c_tm_zone := None\<rparr>) (sint sec)"
    unfolding utc_fields_cleared b_def by (rule GMTIME_accepted [OF host range])
  then have "fst (TIMEGM T H p (b\<lparr>c_tm_gmtoff := 0, c_tm_zone := None\<rparr>)) = sint sec"
    by (rule TIMEGM_utc_fields [OF host range])
  then show ?thesis
    by (cases "TIMEGM T H p (b\<lparr>c_tm_gmtoff := 0, c_tm_zone := None\<rparr>)")
       (simp add: dec rust_time_timegm_def rust_time_tm_round)
qed

text \<open>
  The reference host conforms, whatever its zone and the width of its \<^verbatim>\<open>time_t\<close>, in
  every process whose \<^verbatim>\<open>TZ\<close> is not at odds with its zone. So the round trip holds on it
  for every instant in its range, not only for the instants tried.
\<close>

lemma ref_host_conforms:
  assumes "environ p ''TZ'' = Some [] \<Longrightarrow> west = 0"
  shows "host_conforms (ref_host bits west dst) p"
  unfolding host_conforms_def
proof (intro conjI allI impI)
  fix clock buf b
  assume "libc_gmtime_r (ref_host bits west dst) clock buf = (False, b)"
  then show "utc_fields b clock"
    by (auto simp add: ref_host_def utc_fields_def ref_breakdown_seconds ref_breakdown_isdst
        split: option.splits)
next
  fix clock b
  assume "libc_gmtime (ref_host bits west dst) clock = Some b"
  then show "utc_fields b clock"
    by (auto simp add: ref_host_def utc_fields_def ref_breakdown_seconds ref_breakdown_isdst)
next
  fix clock buf b
  assume "libc_gmtime_s (ref_host bits west dst) clock buf = (0, b)"
  then show "utc_fields b clock"
    by (auto simp add: ref_host_def utc_fields_def ref_breakdown_seconds ref_breakdown_isdst
        split: option.splits)
next
  fix t
  show "libc_timegm (ref_host bits west dst) t = ref_seconds t"
    by (simp add: ref_host_def)
next
  fix t
  show "libc_mkgmtime64 (ref_host bits west dst) t = ref_seconds t"
    by (simp add: ref_host_def)
next
  fix t :: tm
  assume "c_tm_isdst t = 0"
  then show "libc_mktime (ref_host bits west dst) (Some []) t = ref_seconds t"
    by (simp add: ref_host_def ref_mktime_def)
next
  fix t :: tm
  assume "c_tm_isdst t = 0"
  with assms show "libc_mktime (ref_host bits west dst) (environ p ''TZ'') t =
      ref_seconds t + libc_timezone (ref_host bits west dst)"
    by (auto simp add: ref_host_def ref_mktime_def)
qed

lemma ref_host_round_trip:
  assumes "in_host_range T (ref_host bits west dst) p sec tm"
      and "environ p ''TZ'' = Some [] \<Longrightarrow> west = 0"
  shows "fst (rust_time_timegm T (ref_host bits west dst) p
            (rust_time_gmtime T (ref_host bits west dst) sec nsec tm timeptr)) = sec"
  using ref_host_conforms [OF assms(2)] assms(1) by (rule round_trip_on_conforming_host)

text \<open>On a 64-bit reference host in UTC, every instant whose year fits an int.\<close>

lemma utc_host_round_trip:
  assumes "ref_breakdown (sint sec) 0 0 ''GMT'' \<noteq> None"
  shows "fst (rust_time_timegm Unix utc_host proc0
            (rust_time_gmtime Unix utc_host sec nsec tm timeptr)) = sec"
proof -
  have "fits_time_t utc_host (sint sec)"
    unfolding fits_time_t_def utc_host_def ref_host_def
    by (simp add: signed_take_bit_int_eq_self_iff)
       (use sint_range_size [of sec] in \<open>simp add: word_size\<close>)
  with assms have "in_host_range Unix (ref_host 64 0 (\<lambda>s. False)) proc0 sec tm"
    by (auto simp add: in_host_range_def utc_host_def ref_host_def split: option.splits)
  then show ?thesis
    unfolding utc_host_def by (rule ref_host_round_trip) simp
qed

subsection \<open>The local decoder on the reference host\<close>

lemma cet_localtime_s_summer:
  "libc_localtime_s cet_host 1000000000 tm = (0, cest_2001_09_09)"
proof -
  have "ref_local (- 3600) (\<lambda>s. 985482000 \<le> s \<and> s < 1004230800) 1000000000 =
      Some cest_2001_09_09"
    by code_simp
  then show ?thesis by (simp add: cet_host_def ref_host_def)
qed

lemma to_time_t_cet: "to_time_t cet_host 1000000000 = 1000000000"
  by code_simp

lemma utc_localtime_s_max:
  "libc_localtime_s utc_host 9223372036854775807 tm = (22, tm)"
proof -
  have "ref_local 0 (\<lambda>s. False) 9223372036854775807 = None"
    by code_simp
  then show ?thesis by (simp add: utc_host_def ref_host_def)
qed

text \<open>
  Where \<^verbatim>\<open>LOCALTIME\<close> returns a pointer, \<^verbatim>\<open>rust_time_localtime\<close> returns 0 exactly when the
  host's primitive returns \<^verbatim>\<open>NULL\<close>.
\<close>

lemma rust_time_localtime_null_iff:
  assumes "T \<noteq> Win32_MSVC"
  shows "(fst (rust_time_localtime T H sec nsec tm timeptr) = 0) =
     (case T of
        Win32_Other \<Rightarrow> libc_localtime H (to_time_t H sec) = None
      | _ \<Rightarrow> fst (libc_localtime_r H (to_time_t H sec) tm))"
  using assms
  by (cases T)
     (auto simp add: rust_time_localtime_def LOCALTIME_def LOCALTIME_static_def
        split: prod.splits option.splits)

text \<open>
  With a 32-bit \<^verbatim>\<open>time_t\<close> the local decoder is asked about the instant 0 when the caller
  gave \<open>2 ^ 32\<close>.
\<close>

lemma rust_time_localtime_wraps_ref_host:
  "rust_time_localtime Unix utc_host32 4294967296 0 tm timeptr = (1, epoch_tm)"
proof -
  have t: "to_time_t utc_host32 4294967296 = 0"
    by code_simp
  have l: "ref_local 0 (\<lambda>s. False) 0 = Some (gmt_epoch\<lparr>c_tm_zone := Some ''STD''\<rparr>)"
    by code_simp
  show ?thesis
    unfolding rust_time_localtime_def t
    by (simp add: LOCALTIME_def utc_host32_def ref_host_def l utcoff_def
        tm_to_rust_tm_all_fields gmt_epoch_def epoch_tm_def rust_tm0_def)
qed

section \<open>The claims\<close>




text \<open>
  C2. The claim asks that \<^verbatim>\<open>rust_time_localtime\<close> fails exactly when the platform cannot
  resolve the instant, and that it then reports the failure instead of a record. On the
  targets whose \<^verbatim>\<open>LOCALTIME\<close> returns a pointer the code does so
  (\<open>rust_time_localtime_null_iff\<close>). On \<open>Win32_MSVC\<close> \<^verbatim>\<open>LOCALTIME\<close> is \<^verbatim>\<open>localtime_s\<close>, which
  returns an error number, and the code compares it with \<^verbatim>\<open>NULL\<close>: in central Europe the
  instant 1000000000 is resolved (the error number is 0) and the code returns 0 without a
  record; the last second of \<^verbatim>\<open>int64_t\<close> is refused (the error number is 22) and the code
  returns 1 with a record copied from the local \<^verbatim>\<open>struct tm\<close>, which was never initialised.
  And on every target the platform is asked about \<^verbatim>\<open>time_t s = sec\<close>, not about \<open>sec\<close>:
  with a 32-bit \<^verbatim>\<open>time_t\<close> the instant \<open>2 ^ 32\<close> succeeds with the fields of the epoch.
\<close>

theorem rust_time_localtime_msvc_inverted:
  "libc_localtime_s cet_host 1000000000 tm = (0, cest_2001_09_09) \<and>
   rust_time_localtime Win32_MSVC cet_host 1000000000 nsec tm timeptr = (0, timeptr) \<and>
   libc_localtime_s utc_host 9223372036854775807 tm = (22, tm) \<and>
   rust_time_localtime Win32_MSVC utc_host 9223372036854775807 nsec tm timeptr =
     (1, tm_to_rust_tm tm timeptr 0 nsec) \<and>
   rust_time_localtime Unix utc_host32 4294967296 0 tm timeptr = (1, epoch_tm)"
proof (intro conjI)
  show "libc_localtime_s cet_host 1000000000 tm = (0, cest_2001_09_09)"
    by (rule cet_localtime_s_summer)
  show "rust_time_localtime Win32_MSVC cet_host 1000000000 nsec tm timeptr = (0, timeptr)"
    by (simp add: rust_time_localtime_def LOCALTIME_def to_time_t_cet cet_localtime_s_summer)
  show "libc_localtime_s utc_host 9223372036854775807 tm = (22, tm)"
    by (rule utc_localtime_s_max)
  show "rust_time_localtime Win32_MSVC utc_host 9223372036854775807 nsec tm timeptr =
      (1, tm_to_rust_tm tm timeptr 0 nsec)"
    by (simp add: rust_time_localtime_def LOCALTIME_def to_time_t_max utc_localtime_s_max
        utcoff_def)
       (simp add: utc_host_def ref_host_def)
  show "rust_time_localtime Unix utc_host32 4294967296 0 tm timeptr = (1, epoch_tm)"
    by (rule rust_time_localtime_wraps_ref_host)
qed

text \<open>
  C3. The claim asks that \<^verbatim>\<open>rust_time_gmtime\<close> never decodes an out-of-range instant as
  if it were in range. The code does both things the claim excludes. The result of
  \<^verbatim>\<open>GMTIME\<close> is not read, so when the host refuses the instant (here the last second of
  \<^verbatim>\<open>int64_t\<close> on the reference host) the record is filled from the local \<^verbatim>\<open>struct tm\<close>,
  which was never initialised. And \<^verbatim>\<open>time_t s = sec\<close> is not guarded, so on a host with a
  32-bit \<^verbatim>\<open>time_t\<close> the instant \<open>2 ^ 32\<close> is decoded exactly as the instant 0 is.
\<close>

theorem rust_time_gmtime_out_of_range:
  "rust_time_gmtime Unix utc_host 9223372036854775807 nsec tm timeptr =
     tm_to_rust_tm tm timeptr 0 nsec \<and>
   rust_time_gmtime T (H\<lparr>time_t_bits := 32\<rparr>) 4294967296 nsec tm timeptr =
     rust_time_gmtime T (H\<lparr>time_t_bits := 32\<rparr>) 0 nsec tm timeptr \<and>
   rust_time_gmtime Unix utc_host32 4294967296 0 tm timeptr = epoch_tm"
proof (intro conjI)
  show "rust_time_gmtime Unix utc_host 9223372036854775807 nsec tm timeptr =
      tm_to_rust_tm tm timeptr 0 nsec"
    by (simp add: rust_time_gmtime_def to_time_t_max GMTIME_max)
  show "rust_time_gmtime T (H\<lparr>time_t_bits := 32\<rparr>) 4294967296 nsec tm timeptr =
      rust_time_gmtime T (H\<lparr>time_t_bits := 32\<rparr>) 0 nsec tm timeptr"
    by (simp add: rust_time_gmtime_def to_time_t_32_wraps to_time_t_0)
  show "rust_time_gmtime Unix utc_host32 4294967296 0 tm timeptr = epoch_tm"
    by (rule rust_time_gmtime_wraps_ref_host)
qed

text \<open>
  C4. For every instant, on every target and host, the record that \<^verbatim>\<open>rust_time_gmtime\<close>
  produces has \<^verbatim>\<open>tm_utcoff\<close> equal to 0.
\<close>

theorem rust_time_gmtime_utcoff_zero:
  "tm_utcoff (rust_time_gmtime T H sec nsec tm timeptr) = 0"
  by (simp add: rust_time_gmtime_def tm_to_rust_tm_def split: prod.split)

text \<open>
  C5, as amended. \<^verbatim>\<open>rust_time_gmtime\<close> stores its argument \<open>nsec\<close> in \<^verbatim>\<open>tm_nsec\<close> unchanged,
  whatever its value. \<^verbatim>\<open>rust_time_timegm\<close> returns seconds only: its result has no
  fractional field and does not depend on \<^verbatim>\<open>tm_nsec\<close>.
\<close>

theorem nanoseconds_pass_through:
  "tm_nsec (rust_time_gmtime T H sec nsec tm timeptr) = nsec \<and>
   rust_time_timegm T H p (timeptr\<lparr>tm_nsec := n\<rparr>) = rust_time_timegm T H p timeptr"
  by (simp add: rust_time_gmtime_def tm_to_rust_tm_def rust_time_timegm_nsec split: prod.split)

text \<open>
  C5 as stated fails in its second half: no part of the result of \<^verbatim>\<open>rust_time_timegm\<close> is
  the \<^verbatim>\<open>tm_nsec\<close> of its argument.
\<close>

theorem rust_time_timegm_returns_no_nanoseconds:
  "\<not> (\<exists>frac. \<forall>r. frac (fst (rust_time_timegm Unix utc_host proc0 r)) = tm_nsec r)"
proof
  assume "\<exists>frac. \<forall>r. frac (fst (rust_time_timegm Unix utc_host proc0 r)) = tm_nsec r"
  then obtain frac
    where f: "\<And>r. frac (fst (rust_time_timegm Unix utc_host proc0 r)) = tm_nsec r"
    by blast
  from f [of "epoch_tm\<lparr>tm_nsec := 1\<rparr>"] f [of "epoch_tm\<lparr>tm_nsec := 2\<rparr>"]
  have "(1 :: int32_t) = 2"
    by (simp add: rust_time_timegm_nsec)
  then show False by simp
qed



text \<open>
  C7. The claim asks that two records that differ only in \<^verbatim>\<open>tm_utcoff\<close> or \<^verbatim>\<open>tm_isdst\<close>
  encode to the same seconds. For \<^verbatim>\<open>tm_utcoff\<close> the code does it
  (\<open>rust_time_timegm_utcoff\<close>). \<^verbatim>\<open>tm_isdst\<close> is copied into the \<^verbatim>\<open>struct tm\<close> and, where
  \<^verbatim>\<open>TIMEGM\<close> is \<^verbatim>\<open>mktime((result)) - _timezone\<close>, read by \<^verbatim>\<open>mktime\<close>: in central Europe the
  epoch's fields encode to 0 with \<^verbatim>\<open>tm_isdst = 0\<close> and to -3600 with \<^verbatim>\<open>tm_isdst = 1\<close>. With
  the host's \<^verbatim>\<open>timegm\<close> the same two records encode to the same number.
\<close>

theorem rust_time_timegm_reads_isdst:
  "fst (rust_time_timegm Win32_Other cet_host proc0 epoch_tm) = 0 \<and>
   fst (rust_time_timegm Win32_Other cet_host proc0 (epoch_tm\<lparr>tm_isdst := 1\<rparr>)) = - 3600 \<and>
   fst (rust_time_timegm Native_Client cet_host proc0 (epoch_tm\<lparr>tm_isdst := 1\<rparr>)) = - 3600 \<and>
   fst (rust_time_timegm Unix cet_host proc0 (epoch_tm\<lparr>tm_isdst := 1\<rparr>)) = 0"
  by code_simp

text \<open>
  C8. The claim asks that \<^verbatim>\<open>tm_utcoff\<close> is the offset that was applied, summer time
  included, east of UTC positive. On the targets with \<^verbatim>\<open>tm_gmtoff\<close> the code reports the
  host's \<^verbatim>\<open>tm_gmtoff\<close> (\<open>rust_time_localtime_gmtoff\<close>). On the Windows targets it reports
  \<^verbatim>\<open>-timezone\<close>, the standard offset: in central Europe at the instant 1000000000, in
  summer, the local fields are two hours ahead of UTC and the record says 3600. On
  \<open>Native_Client\<close> it reports \<^verbatim>\<open>_timezone\<close> without the sign change: -3600, west of UTC.
\<close>

theorem rust_time_localtime_offset_without_dst:
  "(let (ret, r) = rust_time_localtime Win32_Other cet_host 1000000000 0 memset_tm rust_tm0
    in ret = 1 \<and> tm_isdst r = 1 \<and> tm_hour r = 3 \<and> tm_utcoff r = 3600 \<and>
       libc_timegm cet_host (rust_time_tm_to_tm r) - 1000000000 = 7200) \<and>
   (let (ret, r) = rust_time_localtime Native_Client cet_host 1000000000 0 memset_tm rust_tm0
    in ret = 1 \<and> tm_utcoff r = - 3600) \<and>
   (let (ret, r) = rust_time_localtime Unix cet_host 1000000000 0 memset_tm rust_tm0
    in ret = 1 \<and> tm_isdst r = 1 \<and> tm_hour r = 3 \<and> tm_utcoff r = 7200)"
  by code_simp

text \<open>
  C9. The claim asks that the fallback \<^verbatim>\<open>timegm\<close> puts \<^verbatim>\<open>TZ\<close> back on every path. The
  code does so when its allocations are served (\<open>timegm_restores_environ\<close>), but it reads
  neither the result of \<^verbatim>\<open>strdup\<close> nor that of \<^verbatim>\<open>setenv\<close>. When \<^verbatim>\<open>strdup\<close> fails the saved
  pointer is null, the code takes \<^verbatim>\<open>TZ\<close> for unset and removes it. When the restoring
  \<^verbatim>\<open>setenv\<close> fails \<^verbatim>\<open>TZ\<close> stays empty.
\<close>

theorem timegm_fallback_loses_TZ:
  "environ (snd (timegm H (proc_low_memory [False]) t)) ''TZ'' = None \<and>
   environ (snd (timegm H (proc_low_memory [True, True, False]) t)) ''TZ'' = Some []"
  by (simp add: timegm_def getenv_def strdup_def setenv_def unsetenv_def tzset_def mktime_def
      Let_def proc_low_memory_def)

text \<open>
  C10. When \<^verbatim>\<open>rust_time_localtime\<close> returns 0 the caller's record is not written: every
  field keeps the value it had before the call.
\<close>

theorem rust_time_localtime_failure_keeps_output:
  "fst (rust_time_localtime T H sec nsec tm timeptr) = 0 \<Longrightarrow>
   snd (rust_time_localtime T H sec nsec tm timeptr) = timeptr"
  by (simp add: rust_time_localtime_def split: prod.splits if_splits)

theorem rust_time_localtime_failure_keeps_output_witness:
  "fst (rust_time_localtime Unix utc_host 9223372036854775807 0 memset_tm epoch_tm) = 0 \<and>
   snd (rust_time_localtime Unix utc_host 9223372036854775807 0 memset_tm epoch_tm) = epoch_tm"
proof -
  have h: "fst (rust_time_localtime Unix utc_host 9223372036854775807 0 memset_tm epoch_tm) = 0"
    by code_simp
  from h rust_time_localtime_failure_keeps_output [OF h] show ?thesis
    by (rule conjI)
qed

end
